theory Spec2Isabelle
  imports Main
begin

section \<open>JavaScript values used by the player components\<close>

text \<open>
  An optional string property (\<^verbatim>\<open>string | undefined | null\<close>) is a \<open>string option\<close>.
  A string is truthy when it is present and not empty.
\<close>

definition truthy :: "string option \<Rightarrow> bool" where
  "truthy v = (case v of None \<Rightarrow> False | Some s \<Rightarrow> s \<noteq> [])"

text \<open>\<^verbatim>\<open>a || b\<close> on optional strings: the left operand when it is truthy, else the right one.\<close>

definition js_or :: "string option \<Rightarrow> string option \<Rightarrow> string option" where
  "js_or a b = (if truthy a then a else b)"

text \<open>\<^verbatim>\<open>a || b\<close> with a string on the right, as in \<^verbatim>\<open>source_type || ""\<close>.\<close>

definition or_else :: "string option \<Rightarrow> string \<Rightarrow> string" where
  "or_else a b = (case a of None \<Rightarrow> b | Some s \<Rightarrow> if s = [] then b else s)"

text \<open>A value interpolated into a template literal: \<^verbatim>\<open>undefined\<close> prints as its name.\<close>

definition template_string :: "string option \<Rightarrow> string" where
  "template_string v = (case v of None \<Rightarrow> ''undefined'' | Some s \<Rightarrow> s)"

text \<open>
  \<^verbatim>\<open>String.prototype.toLowerCase\<close> on the Latin capitals. Every other character is kept:
  no character outside \<open>A\<close>..\<open>Z\<close> lower-cases to a letter of the words the router compares
  with (\<open>iframe\<close>, \<open>embed\<close>, \<open>hls\<close>, \<open>m3u8\<close>, \<open>dash\<close>, \<open>mp4\<close>).
\<close>

definition toLowerCase_char :: "char \<Rightarrow> char" where
  "toLowerCase_char c =
     (case map_of (zip ''ABCDEFGHIJKLMNOPQRSTUVWXYZ'' ''abcdefghijklmnopqrstuvwxyz'') c of
        Some l \<Rightarrow> l
      | None \<Rightarrow> c)"

definition toLowerCase :: "string \<Rightarrow> string" where
  "toLowerCase s = map toLowerCase_char s"


section \<open>Platform detection (useNativeMobile.tsx)\<close>

text \<open>
  The mobile runtime bridge is external. Its state is what its two queries answer:
  \<^verbatim>\<open>Capacitor.isNativePlatform()\<close> and \<^verbatim>\<open>Capacitor.getPlatform()\<close>.
\<close>

record Capacitor =
  Capacitor_isNativePlatform :: bool
  Capacitor_getPlatform :: string

record NativeMobile =
  isNative :: bool
  platform :: string
  isAndroid :: bool
  isIOS :: bool
  isWeb :: bool

definition useNativeMobile :: "Capacitor \<Rightarrow> NativeMobile" where
  "useNativeMobile cap =
     (let isNative = Capacitor_isNativePlatform cap;
          platform = Capacitor_getPlatform cap
      in \<lparr> isNative = isNative,
           platform = platform,
           isAndroid = (isNative \<and> platform = ''android''),
           isIOS = (isNative \<and> platform = ''ios''),
           isWeb = (\<not> isNative \<or> platform = ''web'') \<rparr>)"

definition isNativePlatform :: "Capacitor \<Rightarrow> bool" where
  "isNativePlatform cap = Capacitor_isNativePlatform cap"

definition isAndroidNative :: "Capacitor \<Rightarrow> bool" where
  "isAndroidNative cap = (Capacitor_isNativePlatform cap \<and> Capacitor_getPlatform cap = ''android'')"

definition isIOSNative :: "Capacitor \<Rightarrow> bool" where
  "isIOSNative cap = (Capacitor_isNativePlatform cap \<and> Capacitor_getPlatform cap = ''ios'')"

definition getNativePlatform :: "Capacitor \<Rightarrow> string" where
  "getNativePlatform cap =
     (if \<not> Capacitor_isNativePlatform cap then ''web''
      else let platform = Capacitor_getPlatform cap
           in if platform = ''android'' then ''android''
              else if platform = ''ios'' then ''ios''
              else ''web'')"


section \<open>The router's data (VideoPlayer.tsx)\<close>

text \<open>
  Modelled from the spec: the type \<^verbatim>\<open>VideoSource\<close> is imported from \<^verbatim>\<open>@/lib/supabase\<close>,
  which is not among the sources. The spec describes it as "a video source descriptor (URL or
  per-quality URL mapping, a source-type tag, a default flag)"; the fields below are the
  ones the router reads. \<open>quality_urls\<close> lists the entries of the mapping in the order in
  which \<^verbatim>\<open>Object.values\<close> enumerates them; \<open>is_default\<close> is the truthiness of the flag.
\<close>

record VideoSource =
  source_id :: string
  url :: "string option"
  quality_urls :: "(string \<times> string) list option"
  source_type :: "string option"
  is_default :: bool

datatype Access = free | rent | vip

text \<open>
  \<^verbatim>\<open>interface Episode\<close> of the router. \<open>episode_number\<close> is a JavaScript number; the
  catalogue's episode numbers are integers.
\<close>

record Episode =
  episode_id :: string
  episode_number :: "int option"
  title :: "string option"
  name :: "string option"
  still_path :: "string option"
  thumbnail_url :: "string option"
  access :: "Access option"

text \<open>The episode format of the players (\<^verbatim>\<open>interface Episode\<close> of MobileVideoPlayer.tsx).\<close>

record PlayerEpisode =
  pe_id :: string
  pe_episode_number :: int
  pe_title :: "string option"
  pe_thumbnail_url :: "string option"

text \<open>
  The properties of the router that its logic reads. \<open>onEpisodeSelect\<close> records whether the
  parent supplied the callback; the callback itself is the parent's code. The remaining
  properties (backdrop, poster, title, rental data, ...) are handed to the players as they
  are.
\<close>

record VideoPlayerProps =
  videoSources :: "VideoSource list"
  onEpisodeSelect :: bool
  episodes :: "Episode list option"
  currentEpisodeId :: "string option"
  movieId :: "string option"
  accessType :: "Access option"

datatype SourceMode = mp4 | hls | dash

text \<open>
  The hooks of the older variant of the router (src/unnamed/part\_000): three \<^verbatim>\<open>useState\<close>
  cells and two \<^verbatim>\<open>useRef\<close> cells. The current VideoPlayer.tsx adds the cell
  \<open>useShakafallback\<close>.
\<close>

record RouterState0 =
  mobileVideoUrl :: "string option"
  mobileSourceType :: SourceMode
  isLoadingMobileUrl :: bool
  lastFetchedRef :: "string option"
  prevEpisodeIdRef :: "string option"

record RouterState = RouterState0 +
  useShakafallback :: bool

text \<open>What the router returns: one of the two players with the properties forwarded to it,
  or the loading spinner.\<close>

record MobileVideoPlayerProps =
  m_videoUrl :: string
  m_autoplay :: bool
  m_sourceType :: SourceMode
  m_episodes :: "PlayerEpisode list"
  m_currentEpisodeId :: "string option"

record ShakaPlayerProps =
  w_videoSources :: "VideoSource list"
  w_episodes :: "PlayerEpisode list"
  w_currentEpisodeId :: "string option"
  w_episodeId :: "string option"
  w_movieId :: "string option"
  w_accessType :: Access
  w_autoplay :: "bool option"

datatype Rendered =
    MobileVideoPlayer MobileVideoPlayerProps
  | LoadingSpinner
  | ShakaPlayer ShakaPlayerProps

datatype Outcome = MobilePlayer | Spinner | WebPlayer

fun outcome :: "Rendered \<Rightarrow> Outcome" where
  "outcome (MobileVideoPlayer _) = MobilePlayer"
| "outcome LoadingSpinner = Spinner"
| "outcome (ShakaPlayer _) = WebPlayer"


section \<open>The router (VideoPlayer.tsx)\<close>

text \<open>\<^verbatim>\<open>episodes?.find(ep => ep.id === currentEpisodeId)\<close>\<close>

definition currentEpisode :: "VideoPlayerProps \<Rightarrow> Episode option" where
  "currentEpisode p =
     (case episodes p of
        None \<Rightarrow> None
      | Some eps \<Rightarrow> find (\<lambda>ep. Some (episode_id ep) = currentEpisodeId p) eps)"

text \<open>\<^verbatim>\<open>currentEpisode?.access || accessType\<close>, with the default \<^verbatim>\<open>accessType = 'free'\<close>.\<close>

definition effectiveAccessType :: "VideoPlayerProps \<Rightarrow> Access" where
  "effectiveAccessType p =
     (case (case currentEpisode p of None \<Rightarrow> None | Some ep \<Rightarrow> access ep) of
        Some a \<Rightarrow> a
      | None \<Rightarrow> (case accessType p of None \<Rightarrow> free | Some a \<Rightarrow> a))"

text \<open>The function mapped over the episodes; \<^verbatim>\<open>ep.episode_number || 0\<close> also turns
  \<open>0\<close> into \<open>0\<close>.\<close>

definition toPlayerEpisode :: "Episode \<Rightarrow> PlayerEpisode" where
  "toPlayerEpisode ep =
     \<lparr> pe_id = episode_id ep,
       pe_episode_number = (case episode_number ep of None \<Rightarrow> 0 | Some n \<Rightarrow> n),
       pe_title = js_or (title ep) (name ep),
       pe_thumbnail_url = js_or (thumbnail_url ep) (still_path ep) \<rparr>"

text \<open>\<^verbatim>\<open>episodes?.map(...) || []\<close>\<close>

definition playerEpisodes :: "VideoPlayerProps \<Rightarrow> PlayerEpisode list" where
  "playerEpisodes p =
     (case episodes p of None \<Rightarrow> [] | Some eps \<Rightarrow> map toPlayerEpisode eps)"

text \<open>The state at the first rendering: the initial values of the hooks.\<close>

definition mount :: "VideoPlayerProps \<Rightarrow> RouterState" where
  "mount p =
     \<lparr> mobileVideoUrl = None,
       mobileSourceType = hls,
       isLoadingMobileUrl = False,
       lastFetchedRef = None,
       prevEpisodeIdRef = currentEpisodeId p,
       useShakafallback = False \<rparr>"

text \<open>
  \<^verbatim>\<open>handleEpisodeSelect\<close>: the new state and the episode id handed to the parent's
  callback, if it is called.
\<close>

definition handleEpisodeSelect ::
  "VideoPlayerProps \<Rightarrow> PlayerEpisode \<Rightarrow> RouterState \<Rightarrow> RouterState \<times> string option" where
  "handleEpisodeSelect p episode cur =
     (if onEpisodeSelect p
      then (cur\<lparr> lastFetchedRef := None,
                 mobileVideoUrl := None,
                 isLoadingMobileUrl := True,
                 useShakafallback := False \<rparr>,
            Some (pe_id episode))
      else (cur, None))"


text \<open>\<^verbatim>\<open>videoSources.find(s => s.is_default) || videoSources[0]\<close>; \<open>None\<close> is
  \<^verbatim>\<open>undefined\<close>, the value for an empty list.\<close>

definition defaultSource :: "VideoSource list \<Rightarrow> VideoSource option" where
  "defaultSource vs =
     (case find is_default vs of
        Some s \<Rightarrow> Some s
      | None \<Rightarrow> (case vs of [] \<Rightarrow> None | s # _ \<Rightarrow> Some s))"

text \<open>\<^verbatim>\<open>`${currentEpisodeId || movieId}-${defaultSource.id}`\<close>\<close>

definition fetchKey :: "VideoPlayerProps \<Rightarrow> VideoSource \<Rightarrow> string" where
  "fetchKey p d =
     template_string (js_or (currentEpisodeId p) (movieId p)) @ ''-'' @ source_id d"

text \<open>\<^verbatim>\<open>(defaultSource.source_type || "").toLowerCase()\<close>\<close>

definition sourceTypeOf :: "VideoSource \<Rightarrow> string" where
  "sourceTypeOf d = toLowerCase (or_else (source_type d) [])"

text \<open>The chain of comparisons that sets the mode of the mobile player.\<close>

definition mobileModeOf :: "string \<Rightarrow> SourceMode" where
  "mobileModeOf sourceType =
     (if sourceType = ''hls'' \<or> sourceType = ''m3u8'' then hls
      else if sourceType = ''dash'' then dash
      else if sourceType = ''mp4'' then mp4
      else hls)"

text \<open>\<^verbatim>\<open>Object.values(defaultSource.quality_urls)[0]\<close>; \<open>None\<close> when there is no value.\<close>

definition firstQualityUrl :: "(string \<times> string) list \<Rightarrow> string option" where
  "firstQualityUrl q = (case q of [] \<Rightarrow> None | (_, u) # _ \<Rightarrow> Some u)"

text \<open>The guard "Skip if we already fetched for this exact combination".\<close>

definition alreadyFetched ::
  "VideoPlayerProps \<Rightarrow> VideoSource \<Rightarrow> RouterState \<Rightarrow> RouterState \<Rightarrow> bool" where
  "alreadyFetched p d rendered cur =
     (lastFetchedRef cur = Some (fetchKey p d)
      \<and> (truthy (mobileVideoUrl rendered) \<or> useShakafallback rendered))"

text \<open>
  The effect "For native Android, get the video URL for mobile player". The closure reads
  \<open>mobileVideoUrl\<close> and \<open>useShakafallback\<close> as they were rendered (\<open>rendered\<close>); the
  ref \<open>lastFetchedRef\<close> is read, and every update is made, on the current cells (\<open>cur\<close>).
  When no other effect ran in between, both are the same state.
\<close>

definition resolveMobileUrl ::
  "NativeMobile \<Rightarrow> VideoPlayerProps \<Rightarrow> RouterState \<Rightarrow> RouterState \<Rightarrow> RouterState" where
  "resolveMobileUrl nm p rendered cur =
     (if \<not> isNative nm \<or> \<not> isAndroid nm then cur
      else case defaultSource (videoSources p) of
        None \<Rightarrow>
          cur\<lparr> mobileVideoUrl := None, isLoadingMobileUrl := False, useShakafallback := False \<rparr>
      | Some d \<Rightarrow>
          if alreadyFetched p d rendered cur
          then cur\<lparr> isLoadingMobileUrl := False \<rparr>
          else
            let s1 = cur\<lparr> isLoadingMobileUrl := True \<rparr>;
                sourceType = sourceTypeOf d
            in if sourceType = ''iframe'' \<or> sourceType = ''embed''
               then s1\<lparr> mobileVideoUrl := None,
                        useShakafallback := True,
                        isLoadingMobileUrl := False,
                        lastFetchedRef := Some (fetchKey p d) \<rparr>
               else
                 let s2 = s1\<lparr> mobileSourceType := mobileModeOf sourceType \<rparr>;
                     s3 =
                       (if truthy (url d)
                        then s2\<lparr> mobileVideoUrl := url d,
                                 useShakafallback := False,
                                 lastFetchedRef := Some (fetchKey p d) \<rparr>
                        else case quality_urls d of
                          Some q \<Rightarrow>
                            (let firstUrl = firstQualityUrl q
                             in (if truthy firstUrl
                                 then s2\<lparr> mobileVideoUrl := firstUrl, useShakafallback := False \<rparr>
                                 else s2\<lparr> mobileVideoUrl := None, useShakafallback := True \<rparr>)
                                \<lparr> lastFetchedRef := Some (fetchKey p d) \<rparr>)
                        | None \<Rightarrow>
                            s2\<lparr> mobileVideoUrl := None,
                                useShakafallback := True,
                                lastFetchedRef := Some (fetchKey p d) \<rparr>)
                 in s3\<lparr> isLoadingMobileUrl := False \<rparr>)"

text \<open>The element every path to the web player returns.\<close>

definition shakaElement :: "VideoPlayerProps \<Rightarrow> Rendered" where
  "shakaElement p =
     ShakaPlayer \<lparr> w_videoSources = videoSources p,
                   w_episodes = playerEpisodes p,
                   w_currentEpisodeId = currentEpisodeId p,
                   w_episodeId = None,
                   w_movieId = movieId p,
                   w_accessType = effectiveAccessType p,
                   w_autoplay = None \<rparr>"

text \<open>The \<^verbatim>\<open>return\<close> statements of the component. A truthy \<open>mobileVideoUrl\<close> is a
  present string, which \<open>the\<close> reads.\<close>

definition VideoPlayer :: "NativeMobile \<Rightarrow> VideoPlayerProps \<Rightarrow> RouterState \<Rightarrow> Rendered" where
  "VideoPlayer nm p st =
     (if isNative nm \<and> isAndroid nm \<and> \<not> useShakafallback st
      then if isLoadingMobileUrl st then LoadingSpinner
           else if truthy (mobileVideoUrl st)
           then MobileVideoPlayer \<lparr> m_videoUrl = the (mobileVideoUrl st),
                                     m_autoplay = False,
                                     m_sourceType = mobileSourceType st,
                                     m_episodes = playerEpisodes p,
                                     m_currentEpisodeId = currentEpisodeId p \<rparr>
           else shakaElement p
      else shakaElement p)"


section \<open>The older variant of the router (src/unnamed/part\_000)\<close>

definition mount0 :: "VideoPlayerProps \<Rightarrow> RouterState0" where
  "mount0 p =
     \<lparr> mobileVideoUrl = None,
       mobileSourceType = hls,
       isLoadingMobileUrl = False,
       lastFetchedRef = None,
       prevEpisodeIdRef = currentEpisodeId p \<rparr>"

definition handleEpisodeSelect0 ::
  "VideoPlayerProps \<Rightarrow> PlayerEpisode \<Rightarrow> RouterState0 \<Rightarrow> RouterState0 \<times> string option" where
  "handleEpisodeSelect0 p episode cur =
     (if onEpisodeSelect p
      then (cur\<lparr> lastFetchedRef := None,
                 mobileVideoUrl := None,
                 isLoadingMobileUrl := True \<rparr>,
            Some (pe_id episode))
      else (cur, None))"

definition resetOnEpisodeChange0 :: "VideoPlayerProps \<Rightarrow> RouterState0 \<Rightarrow> RouterState0" where
  "resetOnEpisodeChange0 p cur =
     (if prevEpisodeIdRef cur \<noteq> currentEpisodeId p
      then cur\<lparr> prevEpisodeIdRef := currentEpisodeId p,
                lastFetchedRef := None,
                mobileVideoUrl := None,
                isLoadingMobileUrl := True \<rparr>
      else cur)"

definition alreadyFetched0 ::
  "VideoPlayerProps \<Rightarrow> VideoSource \<Rightarrow> RouterState0 \<Rightarrow> RouterState0 \<Rightarrow> bool" where
  "alreadyFetched0 p d rendered cur =
     (lastFetchedRef cur = Some (fetchKey p d) \<and> truthy (mobileVideoUrl rendered))"

definition resolveMobileUrl0 ::
  "NativeMobile \<Rightarrow> VideoPlayerProps \<Rightarrow> RouterState0 \<Rightarrow> RouterState0 \<Rightarrow> RouterState0" where
  "resolveMobileUrl0 nm p rendered cur =
     (if \<not> isNative nm \<or> \<not> isAndroid nm then cur
      else case defaultSource (videoSources p) of
        None \<Rightarrow> cur\<lparr> mobileVideoUrl := None, isLoadingMobileUrl := False \<rparr>
      | Some d \<Rightarrow>
          if alreadyFetched0 p d rendered cur
          then cur\<lparr> isLoadingMobileUrl := False \<rparr>
          else
            let s1 = cur\<lparr> isLoadingMobileUrl := True \<rparr>;
                sourceType = sourceTypeOf d;
                s2 = s1\<lparr> mobileSourceType := mobileModeOf sourceType \<rparr>
            in if sourceType = ''iframe'' \<or> sourceType = ''embed''
               then s2\<lparr> mobileVideoUrl := None, isLoadingMobileUrl := False \<rparr>
               else
                 let s3 =
                       (if truthy (url d)
                        then s2\<lparr> mobileVideoUrl := url d,
                                 lastFetchedRef := Some (fetchKey p d) \<rparr>
                        else case quality_urls d of
                          Some q \<Rightarrow>
                            s2\<lparr> mobileVideoUrl :=
                                  (let firstUrl = firstQualityUrl q
                                   in if truthy firstUrl then firstUrl else None),
                                lastFetchedRef := Some (fetchKey p d) \<rparr>
                        | None \<Rightarrow> s2\<lparr> mobileVideoUrl := None \<rparr>)
                 in s3\<lparr> isLoadingMobileUrl := False \<rparr>)"

text \<open>The variant hands the episode id to the web player as \<^verbatim>\<open>episodeId\<close> and passes
  \<^verbatim>\<open>autoplay={false}\<close>.\<close>

definition shakaElement0 :: "VideoPlayerProps \<Rightarrow> Rendered" where
  "shakaElement0 p =
     ShakaPlayer \<lparr> w_videoSources = videoSources p,
                   w_episodes = playerEpisodes p,
                   w_currentEpisodeId = None,
                   w_episodeId = currentEpisodeId p,
                   w_movieId = movieId p,
                   w_accessType = effectiveAccessType p,
                   w_autoplay = Some False \<rparr>"

definition VideoPlayer0 :: "NativeMobile \<Rightarrow> VideoPlayerProps \<Rightarrow> RouterState0 \<Rightarrow> Rendered" where
  "VideoPlayer0 nm p st =
     (if isNative nm \<and> isAndroid nm \<and> truthy (mobileVideoUrl st)
      then MobileVideoPlayer \<lparr> m_videoUrl = the (mobileVideoUrl st),
                                     m_autoplay = False,
                                m_sourceType = mobileSourceType st,
                                m_episodes = playerEpisodes p,
                                m_currentEpisodeId = currentEpisodeId p \<rparr>
      else if isNative nm \<and> isAndroid nm \<and> isLoadingMobileUrl st then LoadingSpinner
      else shakaElement0 p)"


section \<open>Statements that may throw (MobileVideoPlayer.tsx)\<close>

text \<open>
  The mobile player calls into the adaptive-streaming library, the media element, the
  browser's fullscreen interface and the orientation plugin. The calls it makes, the calls
  that were rejected (a thrown exception or a rejected promise) and its console output are
  recorded in order.
\<close>

datatype ExternalCall =
    Shaka_destroy
  | Shaka_polyfill_installAll
  | Shaka_new_Player
  | Shaka_attach
  | Shaka_configure
  | Shaka_load string
  | Video_set_src string
  | Video_load
  | Video_play
  | ScreenOrientation_lock string
  | ScreenOrientation_unlock
  | Container_requestFullscreen
  | Container_webkitRequestFullscreen
  | Document_exitFullscreen
  | Document_webkitExitFullscreen

datatype ConsoleLevel = console_log | console_warn | console_error

datatype Event =
    Call ExternalCall
  | Rejected ExternalCall
  | Console ConsoleLevel string

text \<open>The cells of the mobile player that the modelled functions touch.\<close>

record MobilePlayerState =
  isPlaying :: bool
  isLoading :: bool
  isFullscreen :: bool
  shakaPlayerRef :: bool
  video_src :: "string option"
  container_fullscreen_class :: bool
  body_fullscreen_active_class :: bool
  pendingUnlockTimers :: nat
  trace :: "Event list"

text \<open>The initial values of the hooks, before the first effect runs.\<close>

definition mobileMount :: MobilePlayerState where
  "mobileMount =
     \<lparr> isPlaying = False,
       isLoading = True,
       isFullscreen = False,
       shakaPlayerRef = False,
       video_src = None,
       container_fullscreen_class = False,
       body_fullscreen_active_class = False,
       pendingUnlockTimers = 0,
       trace = [] \<rparr>"

text \<open>
  A statement runs on the state and completes normally, by a thrown exception, or by
  \<^verbatim>\<open>return\<close>. What it did before it threw stays done. An \<^verbatim>\<open>await\<close> of a rejected
  promise throws at the \<^verbatim>\<open>await\<close>; the asynchronous functions are run to their end
  without other callbacks in between.
\<close>

datatype Completion = Normal | Thrown | Returned

type_synonym Stmt = "MobilePlayerState \<Rightarrow> Completion \<times> MobilePlayerState"

definition skip :: Stmt where
  "skip s = (Normal, s)"

definition step :: "(MobilePlayerState \<Rightarrow> MobilePlayerState) \<Rightarrow> Stmt" where
  "step f s = (Normal, f s)"

definition returnS :: Stmt where
  "returnS s = (Returned, s)"

definition external :: "ExternalCall \<Rightarrow> bool \<Rightarrow> Stmt" where
  "external c rejects s =
     (if rejects then (Thrown, s\<lparr> trace := trace s @ [Call c, Rejected c] \<rparr>)
      else (Normal, s\<lparr> trace := trace s @ [Call c] \<rparr>))"

definition console :: "ConsoleLevel \<Rightarrow> string \<Rightarrow> Stmt" where
  "console l msg s = (Normal, s\<lparr> trace := trace s @ [Console l msg] \<rparr>)"

definition seq :: "Stmt \<Rightarrow> Stmt \<Rightarrow> Stmt" where
  "seq c1 c2 s = (case c1 s of (Normal, s1) \<Rightarrow> c2 s1 | r \<Rightarrow> r)"

fun block :: "Stmt list \<Rightarrow> Stmt" where
  "block [] = skip"
| "block (c # cs) = seq c (block cs)"

definition tryCatch :: "Stmt \<Rightarrow> Stmt \<Rightarrow> Stmt" where
  "tryCatch body handler s = (case body s of (Thrown, s1) \<Rightarrow> handler s1 | r \<Rightarrow> r)"

text \<open>The body of a function: a \<^verbatim>\<open>return\<close> ends it normally.\<close>

definition functionBody :: "Stmt \<Rightarrow> Stmt" where
  "functionBody body s = (case body s of (Returned, s1) \<Rightarrow> (Normal, s1) | r \<Rightarrow> r)"


section \<open>Initialising the video (MobileVideoPlayer.tsx)\<close>

text \<open>What the calls of one run of \<^verbatim>\<open>initPlayer\<close> answer.\<close>

record InitEnv =
  videoMounted :: bool
  destroy_rejects :: bool
  installAll_throws :: bool
  isBrowserSupported :: bool
  new_Player_throws :: bool
  attach_rejects :: bool
  configure_throws :: bool
  load_rejects :: bool
  play_rejects :: bool

text \<open>\<^verbatim>\<open>video.src = videoUrl\<close> and \<^verbatim>\<open>video.load()\<close>; neither throws.\<close>

definition videoSetSrc :: "string \<Rightarrow> Stmt" where
  "videoSetSrc u = block [external (Video_set_src u) False, step (\<lambda>s. s\<lparr> video_src := Some u \<rparr>)]"

definition videoLoad :: Stmt where
  "videoLoad = external Video_load False"

definition cleanupPlayer :: "InitEnv \<Rightarrow> Stmt" where
  "cleanupPlayer env s =
     (if shakaPlayerRef s
      then block [tryCatch (external Shaka_destroy (destroy_rejects env))
                           (console console_warn ''[MobilePlayer] Cleanup error:''),
                  step (\<lambda>s. s\<lparr> shakaPlayerRef := False \<rparr>)] s
      else skip s)"

definition initPlayer :: "InitEnv \<Rightarrow> MobileVideoPlayerProps \<Rightarrow> Stmt" where
  "initPlayer env props =
     functionBody (block
       [step (\<lambda>s. s\<lparr> isLoading := True \<rparr>),
        (if m_sourceType props = mp4
         then block [videoSetSrc (m_videoUrl props), videoLoad]
         else tryCatch
                (block
                  [cleanupPlayer env,
                   external Shaka_polyfill_installAll (installAll_throws env),
                   (if \<not> isBrowserSupported env
                    then block [videoSetSrc (m_videoUrl props), videoLoad, returnS]
                    else skip),
                   external Shaka_new_Player (new_Player_throws env),
                   external Shaka_attach (attach_rejects env),
                   step (\<lambda>s. s\<lparr> shakaPlayerRef := True \<rparr>),
                   external Shaka_configure (configure_throws env),
                   external (Shaka_load (m_videoUrl props)) (load_rejects env),
                   step (\<lambda>s. s\<lparr> isLoading := False \<rparr>),
                   (if m_autoplay props
                    then tryCatch
                           (block [external Video_play (play_rejects env),
                                   step (\<lambda>s. s\<lparr> isPlaying := True \<rparr>)])
                           (console console_log ''[MobilePlayer] Autoplay blocked'')
                    else skip)])
                (block
                  [console console_error ''[MobilePlayer] Shaka error:'',
                   videoSetSrc (m_videoUrl props),
                   videoLoad]))])"


text \<open>The ways in which the set-up of the adaptive-streaming player fails.\<close>

definition streamingInitFails :: "InitEnv \<Rightarrow> bool" where
  "streamingInitFails env =
     (installAll_throws env \<or> \<not> isBrowserSupported env \<or> new_Player_throws env
      \<or> attach_rejects env \<or> configure_throws env \<or> load_rejects env)"


section \<open>The fullscreen toggle (MobileVideoPlayer.tsx)\<close>

text \<open>What the browser and the orientation plugin answer during one toggle.\<close>

record FullscreenEnv =
  containerMounted :: bool
  lockLandscape_rejects :: bool
  has_requestFullscreen :: bool
  has_webkitRequestFullscreen :: bool
  requestFullscreen_rejects :: bool
  webkitRequestFullscreen_rejects :: bool
  has_fullscreenElement :: bool
  has_webkitExitFullscreen :: bool
  exitFullscreen_rejects :: bool
  webkitExitFullscreen_rejects :: bool
  lockPortrait_rejects :: bool
  unlock_rejects :: bool

definition enterFullscreen :: "Capacitor \<Rightarrow> FullscreenEnv \<Rightarrow> Stmt" where
  "enterFullscreen cap env =
     block
       [console console_log ''[MobilePlayer] Entering fullscreen'',
        (if Capacitor_isNativePlatform cap
         then tryCatch (external (ScreenOrientation_lock ''landscape'') (lockLandscape_rejects env))
                       (console console_warn ''[MobilePlayer] Orientation lock failed:'')
         else skip),
        step (\<lambda>s. s\<lparr> container_fullscreen_class := True, body_fullscreen_active_class := True \<rparr>),
        tryCatch
          (if has_requestFullscreen env
           then external Container_requestFullscreen (requestFullscreen_rejects env)
           else if has_webkitRequestFullscreen env
           then external Container_webkitRequestFullscreen (webkitRequestFullscreen_rejects env)
           else skip)
          (console console_log ''[MobilePlayer] Web fullscreen not available''),
        step (\<lambda>s. s\<lparr> isFullscreen := True \<rparr>)]"

definition exitFullscreen :: "Capacitor \<Rightarrow> FullscreenEnv \<Rightarrow> Stmt" where
  "exitFullscreen cap env =
     block
       [console console_log ''[MobilePlayer] Exiting fullscreen'',
        step (\<lambda>s. s\<lparr> container_fullscreen_class := False, body_fullscreen_active_class := False \<rparr>),
        tryCatch
          (if has_fullscreenElement env
           then external Document_exitFullscreen (exitFullscreen_rejects env)
           else if has_webkitExitFullscreen env
           then external Document_webkitExitFullscreen (webkitExitFullscreen_rejects env)
           else skip)
          (console console_log ''[MobilePlayer] Web fullscreen exit error''),
        (if Capacitor_isNativePlatform cap
         then tryCatch
                (block [external (ScreenOrientation_lock ''portrait'') (lockPortrait_rejects env),
                        step (\<lambda>s. s\<lparr> pendingUnlockTimers := Suc (pendingUnlockTimers s) \<rparr>)])
                (console console_warn ''[MobilePlayer] Orientation unlock failed:'')
         else skip),
        step (\<lambda>s. s\<lparr> isFullscreen := False \<rparr>)]"

text \<open>\<^verbatim>\<open>toggleFullscreen\<close>; it reads \<open>isFullscreen\<close> of the state it starts on.\<close>

definition toggleFullscreen :: "Capacitor \<Rightarrow> FullscreenEnv \<Rightarrow> Stmt" where
  "toggleFullscreen cap env s =
     functionBody
       (if \<not> containerMounted env then returnS
        else tryCatch
               (if \<not> isFullscreen s then enterFullscreen cap env else exitFullscreen cap env)
               (console console_error ''[MobilePlayer] Fullscreen toggle error:'')) s"

text \<open>
  The callback that \<^verbatim>\<open>setTimeout(..., 500)\<close> runs after leaving fullscreen:
  \<^verbatim>\<open>try { await ScreenOrientation.unlock(); } catch (e) {}\<close>.
\<close>

definition unlockTimerCallback :: "FullscreenEnv \<Rightarrow> Stmt" where
  "unlockTimerCallback env =
     functionBody (tryCatch (external ScreenOrientation_unlock (unlock_rejects env)) skip)"

text \<open>A pending timer fires.\<close>

definition fireUnlockTimer :: "FullscreenEnv \<Rightarrow> Stmt" where
  "fireUnlockTimer env s =
     (if pendingUnlockTimers s = 0 then skip s
      else unlockTimerCallback env (s\<lparr> pendingUnlockTimers := pendingUnlockTimers s - 1 \<rparr>))"

text \<open>Every rejection in a trace is at once followed by console output.\<close>

fun rejections_logged :: "Event list \<Rightarrow> bool" where
  "rejections_logged [] = True"
| "rejections_logged (Rejected c # Console l msg # es) = rejections_logged es"
| "rejections_logged (Rejected c # es) = False"
| "rejections_logged (e # es) = rejections_logged es"


section \<open>The router and the player it mounts\<close>



section \<open>Object identity: the arrays handed to the router\<close>




















section \<open>The cells the router's operations produce\<close>

text \<open>While the loading flag is set no URL is resolved.\<close>

definition pendingWithoutUrl :: "'a RouterState0_scheme \<Rightarrow> bool" where
  "pendingWithoutUrl st = (isLoadingMobileUrl st \<longrightarrow> mobileVideoUrl st = None)"



section \<open>The wording of the specification\<close>

text \<open>"The first source whose default flag is set, or the first element of the list when
  no source is marked default."\<close>

definition claimedDefaultSource :: "VideoSource list \<Rightarrow> VideoSource" where
  "claimedDefaultSource vs = (case filter is_default vs of s # _ \<Rightarrow> s | [] \<Rightarrow> hd vs)"

text \<open>"If that source has a direct url it is used, otherwise the first value of its
  per-quality URL mapping"; \<open>None\<close> when neither gives a non-empty string.\<close>

definition claimedUrl :: "VideoSource \<Rightarrow> string option" where
  "claimedUrl d =
     (if truthy (url d) then url d
      else case quality_urls d of
             Some ((_, u) # _) \<Rightarrow> if u \<noteq> [] then Some u else None
           | _ \<Rightarrow> None)"


section \<open>Sample inputs\<close>

definition androidBridge :: Capacitor where
  "androidBridge = \<lparr> Capacitor_isNativePlatform = True, Capacitor_getPlatform = ''android'' \<rparr>"

definition iosBridge :: Capacitor where
  "iosBridge = \<lparr> Capacitor_isNativePlatform = True, Capacitor_getPlatform = ''ios'' \<rparr>"

definition webBridge :: Capacitor where
  "webBridge = \<lparr> Capacitor_isNativePlatform = False, Capacitor_getPlatform = ''web'' \<rparr>"

definition hlsSource :: VideoSource where
  "hlsSource =
     \<lparr> source_id = ''s1'',
       url = Some ''https://cdn.example/v/master.m3u8'',
       quality_urls = None,
       source_type = Some ''HLS'',
       is_default = False \<rparr>"

definition dashSource :: VideoSource where
  "dashSource =
     \<lparr> source_id = ''s2'',
       url = None,
       quality_urls = Some [(''720p'', ''https://cdn.example/v/720.mpd''),
                            (''1080p'', ''https://cdn.example/v/1080.mpd'')],
       source_type = Some ''Dash'',
       is_default = True \<rparr>"

definition iframeSource :: VideoSource where
  "iframeSource =
     \<lparr> source_id = ''s3'',
       url = Some ''https://embed.example/p/1'',
       quality_urls = None,
       source_type = Some ''iframe'',
       is_default = True \<rparr>"

definition sampleEpisode :: Episode where
  "sampleEpisode =
     \<lparr> episode_id = ''e1'',
       episode_number = Some 1,
       title = None,
       name = Some ''Pilot'',
       still_path = Some ''/stills/e1.jpg'',
       thumbnail_url = None,
       access = None \<rparr>"

definition sampleProps :: "VideoSource list \<Rightarrow> VideoPlayerProps" where
  "sampleProps vs =
     \<lparr> videoSources = vs,
       onEpisodeSelect = True,
       episodes = Some [sampleEpisode],
       currentEpisodeId = Some ''e1'',
       movieId = None,
       accessType = None \<rparr>"

text \<open>The cells after the first run of the URL effect on the mounted router.\<close>

definition afterFirstEffect :: "Capacitor \<Rightarrow> VideoPlayerProps \<Rightarrow> RouterState" where
  "afterFirstEffect cap p = resolveMobileUrl (useNativeMobile cap) p (mount p) (mount p)"


text \<open>Every call of the set-up succeeds; single failures are updates of this record.\<close>

definition healthyInit :: InitEnv where
  "healthyInit =
     \<lparr> videoMounted = True,
       destroy_rejects = False,
       installAll_throws = False,
       isBrowserSupported = True,
       new_Player_throws = False,
       attach_rejects = False,
       configure_throws = False,
       load_rejects = False,
       play_rejects = False \<rparr>"

definition hlsPlayerProps :: MobileVideoPlayerProps where
  "hlsPlayerProps =
     \<lparr> m_videoUrl = ''https://cdn.example/v/master.m3u8'',
       m_autoplay = False,
       m_sourceType = hls,
       m_episodes = [toPlayerEpisode sampleEpisode],
       m_currentEpisodeId = Some ''e1'' \<rparr>"

text \<open>A browser with the standard fullscreen interface in which no call is rejected.\<close>

definition calmFullscreen :: FullscreenEnv where
  "calmFullscreen =
     \<lparr> containerMounted = True,
       lockLandscape_rejects = False,
       has_requestFullscreen = True,
       has_webkitRequestFullscreen = False,
       requestFullscreen_rejects = False,
       webkitRequestFullscreen_rejects = False,
       has_fullscreenElement = True,
       has_webkitExitFullscreen = False,
       exitFullscreen_rejects = False,
       webkitExitFullscreen_rejects = False,
       lockPortrait_rejects = False,
       unlock_rejects = False \<rparr>"





section \<open>Platform detection: properties\<close>

text \<open>
  Claim C9. For every state of the platform bridge: \<open>isAndroid\<close> and \<open>isIOS\<close> each imply
  \<open>isNative\<close>; they are never both true; \<open>isWeb\<close> holds exactly when the runtime is not
  native or the platform string is \<open>web\<close>; \<open>getNativePlatform\<close> returns one of
  \<open>android\<close>, \<open>ios\<close>, \<open>web\<close>, and \<open>web\<close> whenever the runtime is not native.
\<close>

theorem platform_predicates:
  "(isAndroid (useNativeMobile cap) \<longrightarrow> isNative (useNativeMobile cap))
   \<and> (isIOS (useNativeMobile cap) \<longrightarrow> isNative (useNativeMobile cap))
   \<and> \<not> (isAndroid (useNativeMobile cap) \<and> isIOS (useNativeMobile cap))
   \<and> (isWeb (useNativeMobile cap)
        \<longleftrightarrow> \<not> Capacitor_isNativePlatform cap \<or> Capacitor_getPlatform cap = ''web'')
   \<and> isNative (useNativeMobile cap) = Capacitor_isNativePlatform cap
   \<and> (isAndroidNative cap \<longrightarrow> isNativePlatform cap)
   \<and> (isIOSNative cap \<longrightarrow> isNativePlatform cap)
   \<and> \<not> (isAndroidNative cap \<and> isIOSNative cap)
   \<and> getNativePlatform cap \<in> {''android'', ''ios'', ''web''}
   \<and> (\<not> Capacitor_isNativePlatform cap \<longrightarrow> getNativePlatform cap = ''web'')"
  by (auto simp: useNativeMobile_def isAndroidNative_def isIOSNative_def isNativePlatform_def
                 getNativePlatform_def Let_def)

theorem platform_predicates_witness:
  "isAndroid (useNativeMobile androidBridge) \<and> isNative (useNativeMobile androidBridge)
   \<and> \<not> isIOS (useNativeMobile androidBridge)
   \<and> isIOS (useNativeMobile iosBridge) \<and> isNative (useNativeMobile iosBridge)
   \<and> isIOSNative iosBridge \<and> isNativePlatform iosBridge
   \<and> isAndroidNative androidBridge \<and> isNativePlatform androidBridge
   \<and> \<not> Capacitor_isNativePlatform webBridge \<and> isWeb (useNativeMobile webBridge)
   \<and> getNativePlatform webBridge = ''web''
   \<and> getNativePlatform androidBridge = ''android''"
  using platform_predicates [of androidBridge] platform_predicates [of iosBridge]
    platform_predicates [of webBridge]
  by (simp add: androidBridge_def iosBridge_def webBridge_def useNativeMobile_def
        isAndroidNative_def isIOSNative_def isNativePlatform_def getNativePlatform_def)


section \<open>The router: which player is returned\<close>

lemmas sample_defs = androidBridge_def iosBridge_def webBridge_def hlsSource_def dashSource_def
  iframeSource_def sampleEpisode_def sampleProps_def afterFirstEffect_def

lemmas js_defs = truthy_def js_or_def or_else_def template_string_def toLowerCase_def
  toLowerCase_char_def

lemmas effect_defs = resolveMobileUrl_def useNativeMobile_def mount_def defaultSource_def
  alreadyFetched_def fetchKey_def sourceTypeOf_def mobileModeOf_def firstQualityUrl_def Let_def

lemmas render_defs = VideoPlayer_def shakaElement_def

text \<open>
  Claim C1. In every rendering the router returns the native mobile player only when the
  bridge reports a native platform whose platform string is \<open>android\<close>; on web and on
  native iOS (and whenever the platform is not native Android) it returns the web player.
\<close>

theorem router_mobile_only_on_android:
  "(outcome (VideoPlayer (useNativeMobile cap) p st) = MobilePlayer
      \<longrightarrow> Capacitor_isNativePlatform cap \<and> Capacitor_getPlatform cap = ''android'')
   \<and> (isWeb (useNativeMobile cap) \<or> isIOS (useNativeMobile cap)
      \<longrightarrow> outcome (VideoPlayer (useNativeMobile cap) p st) = WebPlayer)
   \<and> (\<not> (Capacitor_isNativePlatform cap \<and> Capacitor_getPlatform cap = ''android'')
      \<longrightarrow> VideoPlayer (useNativeMobile cap) p st = shakaElement p)"
  by (auto simp: render_defs useNativeMobile_def Let_def)

theorem router_mobile_only_on_android_witness:
  "outcome (VideoPlayer (useNativeMobile androidBridge) (sampleProps [hlsSource])
              (afterFirstEffect androidBridge (sampleProps [hlsSource]))) = MobilePlayer
   \<and> Capacitor_isNativePlatform androidBridge
   \<and> Capacitor_getPlatform androidBridge = ''android''
   \<and> isIOS (useNativeMobile iosBridge)
   \<and> outcome (VideoPlayer (useNativeMobile iosBridge) (sampleProps [hlsSource])
                (afterFirstEffect androidBridge (sampleProps [hlsSource]))) = WebPlayer
   \<and> isWeb (useNativeMobile webBridge)
   \<and> outcome (VideoPlayer (useNativeMobile webBridge) (sampleProps [hlsSource])
                (afterFirstEffect androidBridge (sampleProps [hlsSource]))) = WebPlayer"
  using router_mobile_only_on_android [of androidBridge "sampleProps [hlsSource]"
          "afterFirstEffect androidBridge (sampleProps [hlsSource])"]
    router_mobile_only_on_android [of iosBridge "sampleProps [hlsSource]"
          "afterFirstEffect androidBridge (sampleProps [hlsSource])"]
    router_mobile_only_on_android [of webBridge "sampleProps [hlsSource]"
          "afterFirstEffect androidBridge (sampleProps [hlsSource])"]
  by (simp add: sample_defs js_defs effect_defs render_defs)

text \<open>
  Claim C8. On native Android, while the URL resolution is pending (the loading flag is
  set and the web-player fallback is not selected), the router returns the loading spinner
  and neither player.
\<close>

theorem spinner_while_pending:
  assumes "Capacitor_isNativePlatform cap" and "Capacitor_getPlatform cap = ''android''"
    and "isLoadingMobileUrl st" and "\<not> useShakafallback st"
  shows "VideoPlayer (useNativeMobile cap) p st = LoadingSpinner
         \<and> outcome (VideoPlayer (useNativeMobile cap) p st) = Spinner"
  using assms by (simp add: VideoPlayer_def useNativeMobile_def Let_def)

text \<open>An episode selection leaves such a pending state behind.\<close>

theorem spinner_while_pending_witness:
  "Capacitor_isNativePlatform androidBridge \<and> Capacitor_getPlatform androidBridge = ''android''
   \<and> isLoadingMobileUrl
        (fst (handleEpisodeSelect (sampleProps [hlsSource]) (toPlayerEpisode sampleEpisode)
                (afterFirstEffect androidBridge (sampleProps [hlsSource]))))
   \<and> \<not> useShakafallback
        (fst (handleEpisodeSelect (sampleProps [hlsSource]) (toPlayerEpisode sampleEpisode)
                (afterFirstEffect androidBridge (sampleProps [hlsSource]))))
   \<and> VideoPlayer (useNativeMobile androidBridge) (sampleProps [hlsSource])
        (fst (handleEpisodeSelect (sampleProps [hlsSource]) (toPlayerEpisode sampleEpisode)
                (afterFirstEffect androidBridge (sampleProps [hlsSource]))))
      = LoadingSpinner"
  using spinner_while_pending [of androidBridge
          "fst (handleEpisodeSelect (sampleProps [hlsSource]) (toPlayerEpisode sampleEpisode)
                  (afterFirstEffect androidBridge (sampleProps [hlsSource])))"
          "sampleProps [hlsSource]"]
  by (simp add: sample_defs handleEpisodeSelect_def)

text \<open>The older variant tests the URL before the loading flag: it shows the spinner when
  the loading flag is set and no URL is resolved, which is how its operations leave the
  cells whenever they set the loading flag (\<open>pendingWithoutUrl\<close>).\<close>

lemma spinner_while_pending_variant:
  assumes "Capacitor_isNativePlatform cap" and "Capacitor_getPlatform cap = ''android''"
    and "isLoadingMobileUrl st" and "\<not> truthy (mobileVideoUrl st)"
  shows "VideoPlayer0 (useNativeMobile cap) p st = LoadingSpinner"
  using assms by (simp add: VideoPlayer0_def useNativeMobile_def Let_def)


text \<open>The operations of the older variant keep the loading flag and the URL apart, and so
  do, together with the fallback flag, those of the current router.\<close>

lemma variant_keeps_pendingWithoutUrl:
  "pendingWithoutUrl (mount0 p)"
  "pendingWithoutUrl cur \<Longrightarrow> pendingWithoutUrl (fst (handleEpisodeSelect0 p e cur))"
  "pendingWithoutUrl cur \<Longrightarrow> pendingWithoutUrl (resetOnEpisodeChange0 p cur)"
  "pendingWithoutUrl cur \<Longrightarrow> pendingWithoutUrl (resolveMobileUrl0 nm p rendered cur)"
  by (auto simp: pendingWithoutUrl_def mount0_def handleEpisodeSelect0_def
        resetOnEpisodeChange0_def resolveMobileUrl0_def Let_def split: option.splits)





section \<open>The router: resolving the URL of the mobile player\<close>

lemma find_as_filter:
  "find P xs = (case filter P xs of [] \<Rightarrow> None | x # _ \<Rightarrow> Some x)"
  by (induction xs) auto

text \<open>The source the effect picks is the one the specification describes.\<close>

lemma defaultSource_claimed:
  "defaultSource vs = (if vs = [] then None else Some (claimedDefaultSource vs))"
  by (cases vs) (auto simp: defaultSource_def claimedDefaultSource_def find_as_filter
                      split: list.splits)

text \<open>What a run of the effect that is not skipped leaves in the cells.\<close>

lemma resolve_playable:
  assumes "isNative nm" and "isAndroid nm" and "defaultSource (videoSources p) = Some d"
    and "\<not> alreadyFetched p d rendered cur"
    and "sourceTypeOf d \<noteq> ''iframe''" and "sourceTypeOf d \<noteq> ''embed''"
  shows "mobileVideoUrl (resolveMobileUrl nm p rendered cur) = claimedUrl d"
    and "useShakafallback (resolveMobileUrl nm p rendered cur) = (\<not> truthy (claimedUrl d))"
    and "isLoadingMobileUrl (resolveMobileUrl nm p rendered cur) = False"
    and "mobileSourceType (resolveMobileUrl nm p rendered cur) = mobileModeOf (sourceTypeOf d)"
    and "lastFetchedRef (resolveMobileUrl nm p rendered cur) = Some (fetchKey p d)"
  using assms
  by (auto simp: resolveMobileUrl_def Let_def claimedUrl_def firstQualityUrl_def truthy_def
           split: option.splits list.splits)


lemma resolve_empty:
  assumes "isNative nm" and "isAndroid nm" and "videoSources p = []"
  shows "resolveMobileUrl nm p rendered cur =
           cur\<lparr> mobileVideoUrl := None, isLoadingMobileUrl := False, useShakafallback := False \<rparr>"
  using assms by (simp add: resolveMobileUrl_def defaultSource_def)

lemma android_flags:
  assumes "Capacitor_isNativePlatform cap" and "Capacitor_getPlatform cap = ''android''"
  shows "isNative (useNativeMobile cap)" and "isAndroid (useNativeMobile cap)"
  using assms by (simp_all add: useNativeMobile_def)

lemma claimedUrl_truthy: "claimedUrl d = Some u \<Longrightarrow> truthy (claimedUrl d) \<and> u \<noteq> []"
  by (auto simp: claimedUrl_def truthy_def split: if_splits option.splits list.splits)

text \<open>
  Claim C3, as stated: on native Android, for every non-empty source list the URL of the
  mobile player is the direct url of the default source when it has one. It fails for a
  default source of type \<open>iframe\<close> that has a url: no URL is set.
\<close>

theorem iframe_url_not_used_counterexample:
  "videoSources (sampleProps [iframeSource]) \<noteq> []
   \<and> claimedDefaultSource (videoSources (sampleProps [iframeSource])) = iframeSource
   \<and> url iframeSource = Some ''https://embed.example/p/1''
   \<and> mobileVideoUrl (resolveMobileUrl (useNativeMobile androidBridge) (sampleProps [iframeSource])
                        (mount (sampleProps [iframeSource])) (mount (sampleProps [iframeSource])))
      = None"
  by (simp add: sample_defs js_defs effect_defs claimedDefaultSource_def)

text \<open>
  Claim C3, amended. On native Android, in every run of the URL effect: for an empty
  source list no URL is set and the web player is returned, not the mobile player. For a
  non-empty list, when the run is not skipped as already fetched and the source type of
  the default source is neither \<open>iframe\<close> nor \<open>embed\<close>, the URL comes from the first
  source whose default flag is set, or from the first element when none is: its direct
  url when that is a non-empty string, otherwise the first value of its per-quality
  mapping when that is a non-empty string; the mobile player is then returned with this
  URL. When neither gives a URL, none is set and the web player is returned.
\<close>

theorem mobile_url_from_default_source:
  assumes "Capacitor_isNativePlatform cap" and "Capacitor_getPlatform cap = ''android''"
  shows
    "(videoSources p = [] \<longrightarrow>
        mobileVideoUrl (resolveMobileUrl (useNativeMobile cap) p rendered cur) = None
        \<and> outcome (VideoPlayer (useNativeMobile cap) p
                     (resolveMobileUrl (useNativeMobile cap) p rendered cur)) = WebPlayer)
     \<and> (videoSources p \<noteq> []
        \<and> \<not> alreadyFetched p (claimedDefaultSource (videoSources p)) rendered cur
        \<and> sourceTypeOf (claimedDefaultSource (videoSources p)) \<noteq> ''iframe''
        \<and> sourceTypeOf (claimedDefaultSource (videoSources p)) \<noteq> ''embed'' \<longrightarrow>
        mobileVideoUrl (resolveMobileUrl (useNativeMobile cap) p rendered cur)
          = claimedUrl (claimedDefaultSource (videoSources p))
        \<and> (case claimedUrl (claimedDefaultSource (videoSources p)) of
             Some u \<Rightarrow>
               VideoPlayer (useNativeMobile cap) p
                 (resolveMobileUrl (useNativeMobile cap) p rendered cur)
               = MobileVideoPlayer
                   \<lparr> m_videoUrl = u,
                     m_autoplay = False,
                     m_sourceType = mobileModeOf (sourceTypeOf (claimedDefaultSource (videoSources p))),
                     m_episodes = playerEpisodes p,
                     m_currentEpisodeId = currentEpisodeId p \<rparr>
           | None \<Rightarrow>
               outcome (VideoPlayer (useNativeMobile cap) p
                          (resolveMobileUrl (useNativeMobile cap) p rendered cur)) = WebPlayer))"
proof (intro conjI impI)
  note nm = android_flags [OF assms]
  {
    assume "videoSources p = []"
    then have r: "resolveMobileUrl (useNativeMobile cap) p rendered cur =
        cur\<lparr> mobileVideoUrl := None, isLoadingMobileUrl := False, useShakafallback := False \<rparr>"
      by (rule resolve_empty [OF nm])
    show "mobileVideoUrl (resolveMobileUrl (useNativeMobile cap) p rendered cur) = None"
      by (simp add: r)
    show "outcome (VideoPlayer (useNativeMobile cap) p
                     (resolveMobileUrl (useNativeMobile cap) p rendered cur)) = WebPlayer"
      by (simp add: r render_defs truthy_def)
  }
  {
    assume a: "videoSources p \<noteq> []
        \<and> \<not> alreadyFetched p (claimedDefaultSource (videoSources p)) rendered cur
        \<and> sourceTypeOf (claimedDefaultSource (videoSources p)) \<noteq> ''iframe''
        \<and> sourceTypeOf (claimedDefaultSource (videoSources p)) \<noteq> ''embed''"
    let ?d = "claimedDefaultSource (videoSources p)"
    let ?r = "resolveMobileUrl (useNativeMobile cap) p rendered cur"
    from a have d: "defaultSource (videoSources p) = Some ?d"
      by (simp add: defaultSource_claimed)
    from a have fresh: "\<not> alreadyFetched p ?d rendered cur"
      and t1: "sourceTypeOf ?d \<noteq> ''iframe''" and t2: "sourceTypeOf ?d \<noteq> ''embed''"
      by simp_all
    note facts = resolve_playable [OF nm d fresh t1 t2]
    show "mobileVideoUrl ?r = claimedUrl ?d"
      by (rule facts(1))
    show "case claimedUrl ?d of
            Some u \<Rightarrow>
              VideoPlayer (useNativeMobile cap) p ?r
              = MobileVideoPlayer
                  \<lparr> m_videoUrl = u,
                    m_autoplay = False,
                    m_sourceType = mobileModeOf (sourceTypeOf ?d),
                    m_episodes = playerEpisodes p,
                    m_currentEpisodeId = currentEpisodeId p \<rparr>
          | None \<Rightarrow> outcome (VideoPlayer (useNativeMobile cap) p ?r) = WebPlayer"
    proof (cases "claimedUrl ?d")
      case None
      then show ?thesis
        using facts nm by (simp add: render_defs truthy_def)
    next
      case (Some u)
      then show ?thesis
        using facts nm claimedUrl_truthy [OF Some] by (simp add: render_defs)
    qed
  }
qed

theorem mobile_url_from_default_source_witness:
  "Capacitor_isNativePlatform androidBridge \<and> Capacitor_getPlatform androidBridge = ''android''
   \<and> videoSources (sampleProps [hlsSource, dashSource]) \<noteq> []
   \<and> claimedDefaultSource (videoSources (sampleProps [hlsSource, dashSource])) = dashSource
   \<and> \<not> alreadyFetched (sampleProps [hlsSource, dashSource]) dashSource
          (mount (sampleProps [hlsSource, dashSource])) (mount (sampleProps [hlsSource, dashSource]))
   \<and> sourceTypeOf dashSource = ''dash''
   \<and> mobileVideoUrl (afterFirstEffect androidBridge (sampleProps [hlsSource, dashSource]))
      = Some ''https://cdn.example/v/720.mpd''
   \<and> outcome (VideoPlayer (useNativeMobile androidBridge) (sampleProps [hlsSource, dashSource])
                (afterFirstEffect androidBridge (sampleProps [hlsSource, dashSource])))
      = MobilePlayer
   \<and> videoSources (sampleProps []) = []
   \<and> mobileVideoUrl (afterFirstEffect androidBridge (sampleProps [])) = None
   \<and> outcome (VideoPlayer (useNativeMobile androidBridge) (sampleProps [])
                (afterFirstEffect androidBridge (sampleProps []))) = WebPlayer"
  using mobile_url_from_default_source [of androidBridge "sampleProps [hlsSource, dashSource]"
          "mount (sampleProps [hlsSource, dashSource])" "mount (sampleProps [hlsSource, dashSource])"]
    mobile_url_from_default_source [of androidBridge "sampleProps []"
          "mount (sampleProps [])" "mount (sampleProps [])"]
  by (simp add: sample_defs js_defs effect_defs claimedDefaultSource_def claimedUrl_def)

text \<open>The older variant resolves the same URL in a run that is not skipped.\<close>

lemma variant_url_from_default_source:
  assumes "isNative nm" and "isAndroid nm" and "videoSources p \<noteq> []"
    and "\<not> alreadyFetched0 p (claimedDefaultSource (videoSources p)) rendered cur"
    and "sourceTypeOf (claimedDefaultSource (videoSources p)) \<noteq> ''iframe''"
    and "sourceTypeOf (claimedDefaultSource (videoSources p)) \<noteq> ''embed''"
  shows "mobileVideoUrl (resolveMobileUrl0 nm p rendered cur)
           = claimedUrl (claimedDefaultSource (videoSources p))"
  using assms
  by (auto simp: resolveMobileUrl0_def defaultSource_claimed Let_def claimedUrl_def
                 firstQualityUrl_def truthy_def
           split: option.splits list.splits)



text \<open>The older variant sets the same mode; for \<open>iframe\<close> and \<open>embed\<close> it clears the URL,
  so that it returns the web player as well.\<close>

lemma variant_source_type_dispatch:
  assumes "isNative nm" and "isAndroid nm" and "videoSources p \<noteq> []"
    and "\<not> alreadyFetched0 p (claimedDefaultSource (videoSources p)) rendered cur"
  shows "mobileSourceType (resolveMobileUrl0 nm p rendered cur)
           = mobileModeOf (sourceTypeOf (claimedDefaultSource (videoSources p)))"
    and "sourceTypeOf (claimedDefaultSource (videoSources p)) \<in> {''iframe'', ''embed''}
         \<Longrightarrow> VideoPlayer0 nm p (resolveMobileUrl0 nm p rendered cur) = shakaElement0 p"
  using assms
  by (auto simp: resolveMobileUrl0_def defaultSource_claimed Let_def VideoPlayer0_def truthy_def
           split: option.splits)


section \<open>The mobile player: failures of the set-up\<close>

lemmas stmt_defs = skip_def step_def returnS_def external_def console_def seq_def
  tryCatch_def functionBody_def videoSetSrc_def videoLoad_def cleanupPlayer_def

text \<open>What a failed set-up of the streaming player leaves behind.\<close>

lemma init_fallback:
  assumes "m_sourceType props \<noteq> mp4" and "streamingInitFails env"
  shows "fst (initPlayer env props s) = Normal"
    and "video_src (snd (initPlayer env props s)) = Some (m_videoUrl props)"
    and "\<exists>pre. trace (snd (initPlayer env props s))
                 = trace s @ pre @ [Call (Video_set_src (m_videoUrl props)), Call Video_load]
               \<and> Call Video_load \<notin> set pre
               \<and> count_list pre (Call (Shaka_load (m_videoUrl props))) \<le> 1"
    and "isPlaying (snd (initPlayer env props s)) = isPlaying s"
    and "isFullscreen (snd (initPlayer env props s)) = isFullscreen s"
  using assms
  by (auto simp: initPlayer_def streamingInitFails_def stmt_defs)

text \<open>
  Claim C5. When the set-up of the adaptive-streaming player fails in the mobile player
  (the browser is reported unsupported, or a call of the set-up such as attach or load
  throws), \<^verbatim>\<open>initPlayer\<close> ends normally: it falls back to the plain media element by
  assigning the video URL to the element's \<open>src\<close> and calling \<open>load\<close>, these being its
  last two calls, and no exception leaves it; the playing and fullscreen cells are as
  before.
\<close>

theorem init_failure_falls_back_to_media_element:
  assumes "m_sourceType props \<noteq> mp4"
    and "\<not> isBrowserSupported env \<or> attach_rejects env \<or> load_rejects env
         \<or> installAll_throws env \<or> new_Player_throws env \<or> configure_throws env"
  shows "fst (initPlayer env props s) = Normal
         \<and> video_src (snd (initPlayer env props s)) = Some (m_videoUrl props)
         \<and> (\<exists>pre. trace (snd (initPlayer env props s))
                    = trace s @ pre @ [Call (Video_set_src (m_videoUrl props)), Call Video_load])
         \<and> isPlaying (snd (initPlayer env props s)) = isPlaying s
         \<and> isFullscreen (snd (initPlayer env props s)) = isFullscreen s"
proof -
  from assms(2) have f: "streamingInitFails env"
    by (auto simp: streamingInitFails_def)
  from init_fallback(3) [OF assms(1) f, of s]
  have "\<exists>pre. trace (snd (initPlayer env props s))
                = trace s @ pre @ [Call (Video_set_src (m_videoUrl props)), Call Video_load]"
    by blast
  with init_fallback(1,2,4,5) [OF assms(1) f, of s] show ?thesis
    by simp
qed

theorem init_failure_falls_back_to_media_element_witness:
  "m_sourceType hlsPlayerProps \<noteq> mp4
   \<and> load_rejects (healthyInit\<lparr> load_rejects := True \<rparr>)
   \<and> initPlayer (healthyInit\<lparr> load_rejects := True \<rparr>) hlsPlayerProps mobileMount
      = (Normal,
         mobileMount
           \<lparr> shakaPlayerRef := True,
             video_src := Some ''https://cdn.example/v/master.m3u8'',
             trace := [Call Shaka_polyfill_installAll, Call Shaka_new_Player, Call Shaka_attach,
                       Call Shaka_configure,
                       Call (Shaka_load ''https://cdn.example/v/master.m3u8''),
                       Rejected (Shaka_load ''https://cdn.example/v/master.m3u8''),
                       Console console_error ''[MobilePlayer] Shaka error:'',
                       Call (Video_set_src ''https://cdn.example/v/master.m3u8''),
                       Call Video_load] \<rparr>)"
  using init_failure_falls_back_to_media_element
          [of hlsPlayerProps "healthyInit\<lparr> load_rejects := True \<rparr>" mobileMount]
  by (simp add: initPlayer_def stmt_defs healthyInit_def hlsPlayerProps_def mobileMount_def)

text \<open>When no call of the set-up fails, the element's \<open>src\<close> is left to the streaming player.\<close>

lemma init_success:
  assumes "m_sourceType props \<noteq> mp4" and "\<not> streamingInitFails env"
  shows "fst (initPlayer env props s) = Normal"
    and "video_src (snd (initPlayer env props s)) = video_src s"
    and "isLoading (snd (initPlayer env props s)) = False"
  using assms
  by (auto simp: initPlayer_def streamingInitFails_def stmt_defs)





section \<open>The mobile player: the fullscreen toggle\<close>

lemmas toggle_defs = toggleFullscreen_def enterFullscreen_def exitFullscreen_def
  unlockTimerCallback_def fireUnlockTimer_def

text \<open>
  Claim C6, as stated: every rejected fullscreen or orientation-lock call inside the
  fullscreen toggle is caught and logged. It fails for the call of the orientation plugin
  that releases the lock, which the toggle schedules on a timer when it leaves fullscreen
  on a native platform: the rejection is caught and nothing is written to the console.
\<close>

theorem unlock_rejection_not_logged_counterexample:
  "fst (fireUnlockTimer (calmFullscreen\<lparr> unlock_rejects := True \<rparr>)
          (snd (toggleFullscreen androidBridge (calmFullscreen\<lparr> unlock_rejects := True \<rparr>)
                  (mobileMount\<lparr> isFullscreen := True \<rparr>)))) = Normal
   \<and> trace (snd (fireUnlockTimer (calmFullscreen\<lparr> unlock_rejects := True \<rparr>)
                  (snd (toggleFullscreen androidBridge (calmFullscreen\<lparr> unlock_rejects := True \<rparr>)
                          (mobileMount\<lparr> isFullscreen := True \<rparr>)))))
      = [Console console_log ''[MobilePlayer] Exiting fullscreen'',
         Call Document_exitFullscreen,
         Call (ScreenOrientation_lock ''portrait''),
         Call ScreenOrientation_unlock,
         Rejected ScreenOrientation_unlock]
   \<and> \<not> rejections_logged
          (trace (snd (fireUnlockTimer (calmFullscreen\<lparr> unlock_rejects := True \<rparr>)
                         (snd (toggleFullscreen androidBridge
                                 (calmFullscreen\<lparr> unlock_rejects := True \<rparr>)
                                 (mobileMount\<lparr> isFullscreen := True \<rparr>))))))"
  by (simp add: toggle_defs stmt_defs calmFullscreen_def mobileMount_def androidBridge_def)

text \<open>Each branch of the toggle ends normally with the flag set as the branch says, and
  every rejection in what it appends to the trace is followed by console output.\<close>

lemma enter_run:
  "fst (enterFullscreen cap env s) = Normal
   \<and> isFullscreen (snd (enterFullscreen cap env s))
   \<and> (\<exists>new. trace (snd (enterFullscreen cap env s)) = trace s @ new \<and> rejections_logged new)"
  by (cases "Capacitor_isNativePlatform cap"; cases "lockLandscape_rejects env";
      cases "has_requestFullscreen env"; cases "requestFullscreen_rejects env";
      cases "has_webkitRequestFullscreen env"; cases "webkitRequestFullscreen_rejects env")
     (simp_all add: enterFullscreen_def stmt_defs)

lemma exit_run:
  "fst (exitFullscreen cap env s) = Normal
   \<and> \<not> isFullscreen (snd (exitFullscreen cap env s))
   \<and> (\<exists>new. trace (snd (exitFullscreen cap env s)) = trace s @ new \<and> rejections_logged new)"
  by (cases "Capacitor_isNativePlatform cap"; cases "lockPortrait_rejects env";
      cases "has_fullscreenElement env"; cases "exitFullscreen_rejects env";
      cases "has_webkitExitFullscreen env"; cases "webkitExitFullscreen_rejects env")
     (simp_all add: exitFullscreen_def stmt_defs)

lemma toggle_run:
  assumes "containerMounted env"
  shows "toggleFullscreen cap env s =
           (if \<not> isFullscreen s then enterFullscreen cap env s else exitFullscreen cap env s)"
  using assms enter_run [of cap env s] exit_run [of cap env s]
  by (auto simp: toggleFullscreen_def functionBody_def tryCatch_def
           split: prod.splits Completion.splits)

lemma timer_run:
  "fireUnlockTimer env s =
     (Normal,
      if pendingUnlockTimers s = 0 then s
      else s\<lparr> pendingUnlockTimers := pendingUnlockTimers s - 1,
              trace := trace s @ (if unlock_rejects env
                                  then [Call ScreenOrientation_unlock,
                                        Rejected ScreenOrientation_unlock]
                                  else [Call ScreenOrientation_unlock]) \<rparr>)"
  by (simp add: fireUnlockTimer_def unlockTimerCallback_def stmt_defs)

text \<open>
  Claim C6, amended. With the container mounted, the toggle ends normally whatever is
  rejected: every rejection of a call it awaits (the landscape and portrait orientation
  locks, the request for and the exit from fullscreen) is caught and at once followed by
  console output, and the fullscreen flag takes its new value all the same. The orientation
  unlock that runs later on the timer is caught as well, without console output, and leaves
  the flag alone.
\<close>

theorem fullscreen_rejections_caught:
  assumes "containerMounted env"
  shows "fst (toggleFullscreen cap env s) = Normal
         \<and> isFullscreen (snd (toggleFullscreen cap env s)) = (\<not> isFullscreen s)
         \<and> (\<exists>new. trace (snd (toggleFullscreen cap env s)) = trace s @ new
                    \<and> rejections_logged new)
         \<and> fst (fireUnlockTimer env s1) = Normal
         \<and> isFullscreen (snd (fireUnlockTimer env s1)) = isFullscreen s1
         \<and> trace (snd (fireUnlockTimer env s1))
            = trace s1 @ (if pendingUnlockTimers s1 = 0 then []
                          else if unlock_rejects env
                          then [Call ScreenOrientation_unlock, Rejected ScreenOrientation_unlock]
                          else [Call ScreenOrientation_unlock])"
proof (cases "isFullscreen s")
  case True
  with toggle_run [OF assms, of cap s] exit_run [of cap env s] show ?thesis
    by (simp add: timer_run)
next
  case False
  with toggle_run [OF assms, of cap s] enter_run [of cap env s] show ?thesis
    by (simp add: timer_run)
qed

theorem fullscreen_rejections_caught_witness:
  "containerMounted (calmFullscreen\<lparr> lockLandscape_rejects := True, requestFullscreen_rejects := True \<rparr>)
   \<and> toggleFullscreen androidBridge
        (calmFullscreen\<lparr> lockLandscape_rejects := True, requestFullscreen_rejects := True \<rparr>)
        mobileMount
      = (Normal,
         mobileMount
           \<lparr> isFullscreen := True,
             container_fullscreen_class := True,
             body_fullscreen_active_class := True,
             trace := [Console console_log ''[MobilePlayer] Entering fullscreen'',
                       Call (ScreenOrientation_lock ''landscape''),
                       Rejected (ScreenOrientation_lock ''landscape''),
                       Console console_warn ''[MobilePlayer] Orientation lock failed:'',
                       Call Container_requestFullscreen,
                       Rejected Container_requestFullscreen,
                       Console console_log ''[MobilePlayer] Web fullscreen not available''] \<rparr>)"
  using fullscreen_rejections_caught
          [of "calmFullscreen\<lparr> lockLandscape_rejects := True, requestFullscreen_rejects := True \<rparr>"
              androidBridge mobileMount mobileMount]
  by (simp add: toggle_defs stmt_defs calmFullscreen_def mobileMount_def androidBridge_def)

text \<open>Without the container the toggle does nothing at all.\<close>

lemma toggle_without_container:
  "\<not> containerMounted env \<Longrightarrow> toggleFullscreen cap env s = (Normal, s)"
  by (simp add: toggle_defs stmt_defs)


section \<open>The router: what a rendering changes\<close>
















end
